theory Spec2Isabelle
  imports Complex_Main "HOL-Library.Sublist"
begin

section \<open>Data model\<close>

text \<open>
  A calendar date is its day number (Python's \<open>date.toordinal\<close>), so that subtracting
  two dates gives the \<open>.days\<close> of their \<open>timedelta\<close> and \<open>d - timedelta(days=n)\<close> is
  \<open>d - n\<close>.  Python floats are idealised as real numbers: rounding error of binary
  doubles, infinities and NaN are outside the model.
\<close>

type_synonym day = int

text \<open>
  The two values of an API row are JSON texts.  The program only ever converts them, so a
  text is modelled by what the conversion makes of it: \<open>float\<close> raises on \<open>BadAmount\<close>
  and returns \<open>a\<close> on \<open>Amount a\<close>; \<open>dateutil\<close>'s parser raises on \<open>BadDate\<close> and returns
  the date \<open>d\<close> on \<open>IsoDate d\<close>, which is also the text \<open>d.isoformat()\<close>.
\<close>

datatype amount_text = BadAmount | Amount real

datatype date_text = BadDate | IsoDate day

text \<open>A row is a dict; \<open>None\<close> is a missing key.\<close>

record row =
  record_date :: "date_text option"
  tot_pub_debt_out_amt :: "amount_text option"

datatype filter_expr = Lte string date_text

record params =
  fields_p :: string
  filter_p :: "filter_expr option"
  sort_p :: string
  page_size :: nat

text \<open>
  What a blocking HTTP call gives back: no response at all (connection error, timeout), or
  a status code with a body, \<open>None\<close> when the body is not JSON.
\<close>

datatype 'a http_result = NoResponse | Response nat "'a option"

datatype auth = OAuth1 "string option" "string option" "string option" "string option"

datatype error =
    ConnectionError
  | HTTPError nat
  | JSONDecodeError
  | NoData params
  | KeyError string
  | ValueError
  | ParserError
  | StaleData date_text int int
  | MissingCredentials
  | PostFailed nat

text \<open>
  The world a run sees: the fiscal-data service (its answer to a GET with given query
  parameters; the body is the \<open>data\<close> member of the JSON object, \<open>None\<close> when the object
  has no such member), the current calendar date, the process environment and the
  posting service.
\<close>

record world =
  fiscaldata :: "params \<Rightarrow> (row list option) http_result"
  today :: day
  environ :: "string \<rightharpoonup> string"
  x_api :: "auth \<Rightarrow> string \<Rightarrow> string http_result"

text \<open>What a run does to the outside: the network calls it issues and the lines it prints.\<close>

datatype net_call = GET string params | POST string string auth

datatype out_line = Print string | PrintResp string | PrintErr string error

record io =
  calls :: "net_call list"
  outputs :: "out_line list"

section \<open>Constants\<close>

definition BASE_URL :: string where
  "BASE_URL = ''https://api.fiscaldata.treasury.gov/services/api/''
     @ ''fiscal_service/v2/accounting/od/debt_to_penny''"

definition MAX_STALE_DAYS :: int where
  "MAX_STALE_DAYS = 3"

section \<open>Library operations the program calls\<close>

definition raise_for_status :: "nat \<Rightarrow> bool" where
  "raise_for_status status \<longleftrightarrow> 400 \<le> status \<and> status < 600"

definition float_of :: "amount_text \<Rightarrow> error + real" where
  "float_of t = (case t of BadAmount \<Rightarrow> Inl ValueError | Amount a \<Rightarrow> Inr a)"

definition dateparser_parse :: "date_text \<Rightarrow> error + day" where
  "dateparser_parse t = (case t of BadDate \<Rightarrow> Inl ParserError | IsoDate d \<Rightarrow> Inr d)"

definition isoformat :: "day \<Rightarrow> date_text" where
  "isoformat d = IsoDate d"

definition getenv :: "(string \<rightharpoonup> string) \<Rightarrow> string \<Rightarrow> string option" where
  "getenv e k = e k"

definition getenv_default :: "(string \<rightharpoonup> string) \<Rightarrow> string \<Rightarrow> string \<Rightarrow> string" where
  "getenv_default e k dflt = (case e k of None \<Rightarrow> dflt | Some v \<Rightarrow> v)"

text \<open>Truth value of an optional string: \<open>None\<close> and the empty string are false.\<close>

definition truthy :: "string option \<Rightarrow> bool" where
  "truthy v = (case v of None \<Rightarrow> False | Some s \<Rightarrow> s \<noteq> [])"

definition print :: "string \<Rightarrow> io \<Rightarrow> io" where
  "print line s = s\<lparr>outputs := outputs s @ [Print line]\<rparr>"

definition print_resp :: "string \<Rightarrow> io \<Rightarrow> io" where
  "print_resp r s = s\<lparr>outputs := outputs s @ [PrintResp r]\<rparr>"

definition print_err :: "string \<Rightarrow> error \<Rightarrow> io \<Rightarrow> io" where
  "print_err pre e s = s\<lparr>outputs := outputs s @ [PrintErr pre e]\<rparr>"

subsection \<open>The format specification \<open>,.2f\<close>\<close>

definition digit_char :: "nat \<Rightarrow> char" where
  "digit_char d = ''0123456789'' ! d"

function show_nat :: "nat \<Rightarrow> string" where
  "show_nat n = (if n < 10 then [digit_char n]
     else show_nat (n div 10) @ [digit_char (n mod 10)])"
  by pat_completeness auto
termination
  by (relation "measure id") auto

declare show_nat.simps [simp del]

function commas :: "string \<Rightarrow> string" where
  "commas ds = (if length ds \<le> 3 then ds
     else commas (take (length ds - 3) ds) @ '','' @ drop (length ds - 3) ds)"
  by pat_completeness auto
termination
  by (relation "measure length") auto

declare commas.simps [simp del]

definition round_half_even :: "real \<Rightarrow> int" where
  "round_half_even x = (let f = \<lfloor>x\<rfloor>; r = x - of_int f in
     if r < 1 / 2 then f else if 1 / 2 < r then f + 1 else if even f then f else f + 1)"

text \<open>
  \<open>format(x, ",.2f")\<close>: the value rounded to hundredths, the integer part in groups of
  three digits separated by commas, a point and two decimals, a minus sign in front of a
  negative value.
\<close>

definition fmt_comma_2f :: "real \<Rightarrow> string" where
  "fmt_comma_2f x = (let c = nat (round_half_even (\<bar>x\<bar> * 100)) in
     (if x < 0 then ''-'' else '''') @ commas (show_nat (c div 100)) @ ''.''
       @ [digit_char (c mod 100 div 10), digit_char (c mod 10)])"

section \<open>Low-level helpers\<close>

text \<open>\<open>_request\<close>: one GET; raises on an error status, a non-JSON body or empty data.\<close>

definition request :: "world \<Rightarrow> params \<Rightarrow> io \<Rightarrow> io \<times> (error + row)" where
  "request w ps s =
    (let s' = s\<lparr>calls := calls s @ [GET BASE_URL ps]\<rparr> in
     case fiscaldata w ps of
       NoResponse \<Rightarrow> (s', Inl ConnectionError)
     | Response status body \<Rightarrow>
         if raise_for_status status then (s', Inl (HTTPError status))
         else (case body of
             None \<Rightarrow> (s', Inl JSONDecodeError)
           | Some data_member \<Rightarrow>
               (let data = (case data_member of None \<Rightarrow> [] | Some rows \<Rightarrow> rows) in
                case data of
                  [] \<Rightarrow> (s', Inl (NoData ps))
                | r # _ \<Rightarrow> (s', Inr r))))"

definition latest_params :: params where
  "latest_params = \<lparr>fields_p = ''record_date,tot_pub_debt_out_amt'', filter_p = None,
     sort_p = ''-record_date'', page_size = 1\<rparr>"

definition fetch_latest_debt_row :: "world \<Rightarrow> io \<Rightarrow> io \<times> (error + row)" where
  "fetch_latest_debt_row w s = request w latest_params s"

definition on_or_before_params :: "date_text \<Rightarrow> params" where
  "on_or_before_params target_iso_date =
     \<lparr>fields_p = ''record_date,tot_pub_debt_out_amt'',
      filter_p = Some (Lte ''record_date'' target_iso_date),
      sort_p = ''-record_date'', page_size = 1\<rparr>"

definition fetch_debt_on_or_before :: "world \<Rightarrow> date_text \<Rightarrow> io \<Rightarrow> io \<times> (error + row)" where
  "fetch_debt_on_or_before w target_iso_date s =
     request w (on_or_before_params target_iso_date) s"

definition parse_debt :: "row \<Rightarrow> error + (real \<times> date_text)" where
  "parse_debt r =
    (case tot_pub_debt_out_amt r of
       None \<Rightarrow> Inl (KeyError ''tot_pub_debt_out_amt'')
     | Some t \<Rightarrow>
        (case float_of t of
           Inl e \<Rightarrow> Inl e
         | Inr amt \<Rightarrow>
            (case record_date r of
               None \<Rightarrow> Inl (KeyError ''record_date'')
             | Some dstr \<Rightarrow> Inr (amt, dstr))))"

definition billions :: "real \<Rightarrow> real" where
  "billions x = x / 1000000000"

definition format_billions :: "real \<Rightarrow> string" where
  "format_billions delta =
     (let sign = (if delta \<ge> 0 then ''+'' else ''-'') in
      sign @ ''$'' @ fmt_comma_2f \<bar>billions delta\<bar> @ '' B'')"

section \<open>Core logic: build tweet text\<close>

definition nl :: string where
  "nl = [CHR 0x0A]"

definition emoji_flag :: string where
  "emoji_flag = [CHR 0xC3, CHR 0xB0, CHR 0xC5, CHR 0xB8, CHR 0xE2, CHR 0x80, CHR 0xA1,
     CHR 0xC2, CHR 0xBA, CHR 0xC3, CHR 0xB0, CHR 0xC5, CHR 0xB8, CHR 0xE2, CHR 0x80,
     CHR 0xA1, CHR 0xC2, CHR 0xB8]"

definition emoji_money :: string where
  "emoji_money = [CHR 0xC3, CHR 0xB0, CHR 0xC5, CHR 0xB8, CHR 0xE2, CHR 0x80, CHR 0x99,
     CHR 0xC2, CHR 0xB0]"

definition emoji_calendar :: string where
  "emoji_calendar = [CHR 0xC3, CHR 0xB0, CHR 0xC5, CHR 0xB8, CHR 0xE2, CHR 0x80, CHR 0x9C,
     CHR 0xE2, CHR 0x80, CHR 0xA6]"

definition emoji_spiral :: string where
  "emoji_spiral = [CHR 0xC3, CHR 0xB0, CHR 0xC5, CHR 0xB8, CHR 0xE2, CHR 0x80, CHR 0x94,
     CHR 0xE2, CHR 0x80, CHR 0x9C, CHR 0xC3, CHR 0xAF, CHR 0xC2, CHR 0xB8]"

definition emoji_chart :: string where
  "emoji_chart = [CHR 0xC3, CHR 0xB0, CHR 0xC5, CHR 0xB8, CHR 0xE2, CHR 0x80, CHR 0x9C,
     CHR 0xCB, CHR 0x86]"

definition emoji_tearoff :: string where
  "emoji_tearoff = [CHR 0xC3, CHR 0xB0, CHR 0xC5, CHR 0xB8, CHR 0xE2, CHR 0x80, CHR 0x9C,
     CHR 0xE2, CHR 0x80, CHR 0xA0]"

definition arrow :: string where
  "arrow = [CHR 0xC3, CHR 0xA2, CHR 0xE2, CHR 0x80, CHR 0xA0, CHR 0xE2, CHR 0x80, CHR 0x99]"

text \<open>The f-string of \<open>build_tweet_text\<close>.\<close>

definition tweet :: "real \<Rightarrow> real \<Rightarrow> real \<Rightarrow> real \<Rightarrow> real \<Rightarrow> string" where
  "tweet today_debt y_debt w_debt daily_inc weekly_inc =
     emoji_flag @ '' U.S. Debt Update'' @ nl @ nl
     @ emoji_money @ '' Today: $'' @ fmt_comma_2f today_debt @ nl
     @ emoji_calendar @ '' Yesterday: $'' @ fmt_comma_2f y_debt @ nl
     @ emoji_spiral @ '' 1 Week Ago: $'' @ fmt_comma_2f w_debt @ nl @ nl
     @ emoji_chart @ '' Daily Increase: '' @ format_billions daily_inc @ nl
     @ emoji_tearoff @ '' Weekly Increase: '' @ format_billions weekly_inc @ nl @ nl
     @ ''#USDebt #DebtCrisis #FiscalReality''"

definition build_tweet_text :: "world \<Rightarrow> io \<Rightarrow> io \<times> (error + string)" where
  "build_tweet_text w s =
    (case fetch_latest_debt_row w s of
       (s1, Inl e) \<Rightarrow> (s1, Inl e)
     | (s1, Inr latest_row) \<Rightarrow>
    (case parse_debt latest_row of
       Inl e \<Rightarrow> (s1, Inl e)
     | Inr (today_debt, today_str) \<Rightarrow>
    (case dateparser_parse today_str of
       Inl e \<Rightarrow> (s1, Inl e)
     | Inr today_record_date \<Rightarrow>
    (let days_old = today w - today_record_date in
     if days_old > MAX_STALE_DAYS
     then (s1, Inl (StaleData today_str days_old MAX_STALE_DAYS))
     else
    (let y_target = today_record_date - 1 in
     case fetch_debt_on_or_before w (isoformat y_target) s1 of
       (s2, Inl e) \<Rightarrow> (s2, Inl e)
     | (s2, Inr y_row) \<Rightarrow>
    (case parse_debt y_row of
       Inl e \<Rightarrow> (s2, Inl e)
     | Inr (y_debt, y_str) \<Rightarrow>
    (let w_target = today_record_date - 7 in
     case fetch_debt_on_or_before w (isoformat w_target) s2 of
       (s3, Inl e) \<Rightarrow> (s3, Inl e)
     | (s3, Inr w_row) \<Rightarrow>
    (case parse_debt w_row of
       Inl e \<Rightarrow> (s3, Inl e)
     | Inr (w_debt, w_str) \<Rightarrow>
    (let daily_inc = today_debt - y_debt;
         weekly_inc = today_debt - w_debt in
     (s3, Inr (tweet today_debt y_debt w_debt daily_inc weekly_inc)))))))))))"

section \<open>Posting to X\<close>

definition tweets_url :: string where
  "tweets_url = ''https://api.twitter.com/2/tweets''"

definition post_to_x :: "world \<Rightarrow> string \<Rightarrow> io \<Rightarrow> io \<times> (error + string)" where
  "post_to_x w text s =
    (let api_key = getenv (environ w) ''X_API_KEY'';
         api_secret = getenv (environ w) ''X_API_SECRET'';
         access_token = getenv (environ w) ''X_ACCESS_TOKEN'';
         access_token_secret = getenv (environ w) ''X_ACCESS_TOKEN_SECRET'' in
     if \<not> list_all truthy [api_key, api_secret, access_token, access_token_secret]
     then (s, Inl MissingCredentials)
     else
      (let url = tweets_url;
           auth = OAuth1 api_key api_secret access_token access_token_secret;
           s' = s\<lparr>calls := calls s @ [POST url text auth]\<rparr> in
       case x_api w auth text of
         NoResponse \<Rightarrow> (s', Inl ConnectionError)
       | Response status body \<Rightarrow>
           if raise_for_status status then (s', Inl (PostFailed status))
           else (case body of
               None \<Rightarrow> (s', Inl JSONDecodeError)
             | Some j \<Rightarrow> (s', Inr j))))"

section \<open>Entrypoint\<close>

definition start :: io where
  "start = \<lparr>calls = [], outputs = []\<rparr>"

definition preview :: "string \<Rightarrow> io \<Rightarrow> io" where
  "preview t s = print ''================================''
     (print t (print ''=== Generated Tweet Preview ==='' s))"

text \<open>\<open>main\<close> returns what the run did and the exit status of the process.\<close>

definition main :: "world \<Rightarrow> io \<times> int" where
  "main w =
    (case build_tweet_text w start of
       (s1, Inl e) \<Rightarrow> (print_err ''[ERROR] Failed to build tweet: '' e s1, 1)
     | (s1, Inr t) \<Rightarrow>
        (let s2 = preview t s1;
             dry_run = getenv_default (environ w) ''DRY_RUN'' ''0'' in
         if dry_run = ''1''
         then (print (''[INFO] DRY_RUN=1 '' @ arrow @ '' not posting to X.'') s2, 0)
         else
          (case post_to_x w t s2 of
             (s3, Inl e) \<Rightarrow> (print_err ''[ERROR] Failed to post tweet: '' e s3, 1)
           | (s3, Inr resp) \<Rightarrow>
               (print_resp resp (print ''[INFO] Tweet posted successfully.'' s3), 0))))"

section \<open>Specification-side notions\<close>

text \<open>The row or error that a GET with given parameters yields, whatever was done before it.\<close>

definition answer :: "world \<Rightarrow> params \<Rightarrow> error + row" where
  "answer w ps = snd (request w ps start)"

subsection \<open>Reading a rendered number back\<close>







subsection \<open>The remote service\<close>

text \<open>
  Modelled from the spec: the fiscal-data service is not part of the repository.  It holds
  a dataset of records (date and amount), keeps the records that match the \<open>lte\<close>
  filter on the record date, sorts them by descending record date when asked to, and
  answers with the first page.  A record is sent as a row with both keys present.
\<close>

definition render_row :: "day \<times> real \<Rightarrow> row" where
  "render_row r = \<lparr>record_date = Some (IsoDate (fst r)),
     tot_pub_debt_out_amt = Some (Amount (snd r))\<rparr>"

text \<open>
  Modelled from the spec: whether a record of the remote dataset passes the request's
  filter; without a filter every record does.
\<close>

definition matches :: "filter_expr option \<Rightarrow> day \<times> real \<Rightarrow> bool" where
  "matches f r = (case f of
       None \<Rightarrow> True
     | Some (Lte k BadDate) \<Rightarrow> False
     | Some (Lte k (IsoDate t)) \<Rightarrow> fst r \<le> t)"

text \<open>
  Modelled from the spec: the remote service's answer to a request, over its dataset:
  status 200 and the first page of the matching records, newest first when the request
  sorts by \<open>-record_date\<close>.
\<close>

definition fiscaldata_service :: "(day \<times> real) list \<Rightarrow> params \<Rightarrow> (row list option) http_result" where
  "fiscaldata_service ds ps =
    (let hits = filter (matches (filter_p ps)) ds;
         ordered = (if sort_p ps = ''-record_date'' then rev (sort_key fst hits) else hits)
     in Response 200 (Some (Some (map render_row (take (page_size ps) ordered)))))"

text \<open>The remote call errors or returns no rows.\<close>

definition call_fails :: "(row list option) http_result \<Rightarrow> bool" where
  "call_fails res = (case res of
       NoResponse \<Rightarrow> True
     | Response status body \<Rightarrow>
         raise_for_status status \<or> body = None \<or> body = Some None \<or> body = Some (Some []))"

section \<open>Example runs\<close>

text \<open>
  Four records of the dataset, as the service stores them: day 739190 is 2024-10-31,
  739189 is 2024-10-30, 739183 is 2024-10-24 and 739170 is 2024-10-11.
\<close>

definition demo_dataset :: "(day \<times> real) list" where
  "demo_dataset = [(739189, 36197500000000), (739170, 35800000000000.5),
     (739190, 36200000000000), (739183, 35950000000000.25)]"

text \<open>A dry run, one day after the latest record.\<close>

definition demo_world :: world where
  "demo_world = \<lparr>fiscaldata = fiscaldata_service demo_dataset, today = 739191,
     environ = [''DRY_RUN'' \<mapsto> ''1''], x_api = (\<lambda>a t. Response 201 (Some ''created''))\<rparr>"

text \<open>A publishing run with all four credentials and \<open>DRY_RUN=true\<close>.\<close>

definition live_world :: world where
  "live_world = demo_world\<lparr>environ := [''DRY_RUN'' \<mapsto> ''true'', ''X_API_KEY'' \<mapsto> ''k'',
     ''X_API_SECRET'' \<mapsto> ''ks'', ''X_ACCESS_TOKEN'' \<mapsto> ''t'',
     ''X_ACCESS_TOKEN_SECRET'' \<mapsto> ''ts'']\<rparr>"

text \<open>A publishing run in which \<open>X_API_SECRET\<close> is not set.\<close>

definition no_secret_world :: world where
  "no_secret_world = demo_world\<lparr>environ := [''X_API_KEY'' \<mapsto> ''k'',
     ''X_ACCESS_TOKEN'' \<mapsto> ''t'', ''X_ACCESS_TOKEN_SECRET'' \<mapsto> ''ts'']\<rparr>"

text \<open>A dry run while the fiscal-data service cannot be reached.\<close>

definition offline_world :: world where
  "offline_world = demo_world\<lparr>fiscaldata := (\<lambda>ps. NoResponse)\<rparr>"

text \<open>
  The service answers every request with a row, but the amount of the record of one week
  ago is a text that \<open>float\<close> rejects.
\<close>

definition null_amount_world :: world where
  "null_amount_world = demo_world\<lparr>fiscaldata := (\<lambda>ps.
     if filter_p ps = Some (Lte ''record_date'' (IsoDate 739183))
     then Response 200 (Some (Some [\<lparr>record_date = Some (IsoDate 739183),
       tot_pub_debt_out_amt = Some BadAmount\<rparr>]))
     else fiscaldata_service demo_dataset ps)\<rparr>"

text \<open>The latest record is exactly three days old.\<close>

definition three_days_world :: world where
  "three_days_world = demo_world\<lparr>today := 739193\<rparr>"

text \<open>The latest record is four days old.\<close>

definition stale_world :: world where
  "stale_world = demo_world\<lparr>today := 739194\<rparr>"

text \<open>The tweet built from \<open>demo_dataset\<close>.\<close>

definition demo_tweet :: string where
  "demo_tweet = tweet 36200000000000 36197500000000 35950000000000.25
     2500000000 249999999999.75"

definition demo_auth :: auth where
  "demo_auth = OAuth1 (Some ''k'') (Some ''ks'') (Some ''t'') (Some ''ts'')"

section \<open>Number formatting\<close>

lemma show_nat_small: "n < 10 \<Longrightarrow> show_nat n = [digit_char n]"
  by (simp add: show_nat.simps)

lemma show_nat_big: "10 \<le> n \<Longrightarrow> show_nat n = show_nat (n div 10) @ [digit_char (n mod 10)]"
  by (subst show_nat.simps) simp

lemma commas_small: "length ds \<le> 3 \<Longrightarrow> commas ds = ds"
  by (simp add: commas.simps)

lemma commas_big: "3 < length ds \<Longrightarrow>
    commas ds = commas (take (length ds - 3) ds) @ '','' @ drop (length ds - 3) ds"
  by (subst commas.simps) simp



















lemmas fmt_eval = fmt_comma_2f_def round_half_even_def Let_def digit_char_def
  show_nat_small show_nat_big commas_small commas_big



section \<open>Runs, stage by stage\<close>

lemma request_run:
  "request w ps s = (s\<lparr>calls := calls s @ [GET BASE_URL ps]\<rparr>, answer w ps)"
  by (simp add: answer_def request_def Let_def split: http_result.splits option.splits list.splits)

lemma fetch_latest_run:
  "fetch_latest_debt_row w s =
     (s\<lparr>calls := calls s @ [GET BASE_URL latest_params]\<rparr>, answer w latest_params)"
  by (simp add: fetch_latest_debt_row_def request_run)

lemma fetch_on_or_before_run:
  "fetch_debt_on_or_before w t s =
     (s\<lparr>calls := calls s @ [GET BASE_URL (on_or_before_params t)]\<rparr>,
      answer w (on_or_before_params t))"
  by (simp add: fetch_debt_on_or_before_def request_run)

lemma fetch_latest_answer:
  "fetch_latest_debt_row w s = (s1, r) \<longleftrightarrow>
     s1 = s\<lparr>calls := calls s @ [GET BASE_URL latest_params]\<rparr> \<and> r = answer w latest_params"
  by (auto simp: fetch_latest_run)

lemma fetch_on_or_before_answer:
  "fetch_debt_on_or_before w t s = (s1, r) \<longleftrightarrow>
     s1 = s\<lparr>calls := calls s @ [GET BASE_URL (on_or_before_params t)]\<rparr>
     \<and> r = answer w (on_or_before_params t)"
  by (auto simp: fetch_on_or_before_run)

text \<open>The outcome of \<open>build_tweet_text\<close>, fetch by fetch.\<close>

lemma build_unfold:
  "build_tweet_text w s =
    (let s1 = s\<lparr>calls := calls s @ [GET BASE_URL latest_params]\<rparr> in
     case answer w latest_params of
       Inl e \<Rightarrow> (s1, Inl e)
     | Inr latest_row \<Rightarrow>
    (case parse_debt latest_row of
       Inl e \<Rightarrow> (s1, Inl e)
     | Inr (today_debt, today_str) \<Rightarrow>
    (case dateparser_parse today_str of
       Inl e \<Rightarrow> (s1, Inl e)
     | Inr d \<Rightarrow>
     if today w - d > MAX_STALE_DAYS
     then (s1, Inl (StaleData today_str (today w - d) MAX_STALE_DAYS))
     else
    (let s2 = s1\<lparr>calls := calls s1 @ [GET BASE_URL (on_or_before_params (isoformat (d - 1)))]\<rparr> in
     case answer w (on_or_before_params (isoformat (d - 1))) of
       Inl e \<Rightarrow> (s2, Inl e)
     | Inr y_row \<Rightarrow>
    (case parse_debt y_row of
       Inl e \<Rightarrow> (s2, Inl e)
     | Inr (y_debt, y_str) \<Rightarrow>
    (let s3 = s2\<lparr>calls := calls s2 @ [GET BASE_URL (on_or_before_params (isoformat (d - 7)))]\<rparr> in
     case answer w (on_or_before_params (isoformat (d - 7))) of
       Inl e \<Rightarrow> (s3, Inl e)
     | Inr w_row \<Rightarrow>
    (case parse_debt w_row of
       Inl e \<Rightarrow> (s3, Inl e)
     | Inr (w_debt, w_str) \<Rightarrow>
       (s3, Inr (tweet today_debt y_debt w_debt (today_debt - y_debt) (today_debt - w_debt))))))))))"
  by (simp add: build_tweet_text_def Let_def fetch_latest_run fetch_on_or_before_run
      split: sum.splits prod.splits)

lemma build_success:
  assumes "build_tweet_text w s = (s', Inr text)"
  shows "\<exists>r1 a d r2 y ydt r3 k kdt.
      answer w latest_params = Inr r1 \<and> parse_debt r1 = Inr (a, IsoDate d)
    \<and> \<not> today w - d > MAX_STALE_DAYS
    \<and> answer w (on_or_before_params (isoformat (d - 1))) = Inr r2
    \<and> parse_debt r2 = Inr (y, ydt)
    \<and> answer w (on_or_before_params (isoformat (d - 7))) = Inr r3
    \<and> parse_debt r3 = Inr (k, kdt)
    \<and> s' = s\<lparr>calls := calls s @ [GET BASE_URL latest_params,
          GET BASE_URL (on_or_before_params (isoformat (d - 1))),
          GET BASE_URL (on_or_before_params (isoformat (d - 7)))]\<rparr>
    \<and> text = tweet a y k (a - y) (a - k)"
  using assms unfolding build_unfold Let_def
  by (auto simp: dateparser_parse_def split: sum.splits prod.splits if_splits date_text.splits)

lemma build_calls:
  "outputs (fst (build_tweet_text w s)) = outputs s \<and>
   (\<exists>d. calls (fst (build_tweet_text w s)) = calls s @ [GET BASE_URL latest_params]
      \<and> isl (snd (build_tweet_text w s))
    \<or> calls (fst (build_tweet_text w s)) = calls s @ [GET BASE_URL latest_params,
          GET BASE_URL (on_or_before_params (isoformat (d - 1)))]
      \<and> isl (snd (build_tweet_text w s))
    \<or> calls (fst (build_tweet_text w s)) = calls s @ [GET BASE_URL latest_params,
          GET BASE_URL (on_or_before_params (isoformat (d - 1))),
          GET BASE_URL (on_or_before_params (isoformat (d - 7)))])"
  unfolding build_unfold Let_def
  by (auto split: sum.splits prod.splits if_splits)

lemma build_no_post: "POST u t a \<in> set (calls (fst (build_tweet_text w start))) \<Longrightarrow> False"
  using build_calls [of w start] by (auto simp: start_def)

lemma post_calls:
  "outputs (fst (post_to_x w t s)) = outputs s \<and>
   (post_to_x w t s = (s, Inl MissingCredentials)
    \<or> (\<exists>a. calls (fst (post_to_x w t s)) = calls s @ [POST tweets_url t a]))"
  unfolding post_to_x_def Let_def
  by (auto split: http_result.splits option.splits)

lemma print_simps:
  "calls (print l s) = calls s" "outputs (print l s) = outputs s @ [Print l]"
  "calls (print_resp r s) = calls s" "outputs (print_resp r s) = outputs s @ [PrintResp r]"
  "calls (print_err p e s) = calls s" "outputs (print_err p e s) = outputs s @ [PrintErr p e]"
  "calls (preview t s) = calls s"
  "outputs (preview t s) = outputs s @ [Print ''=== Generated Tweet Preview ==='', Print t,
      Print ''================================'']"
  by (simp_all add: print_def print_resp_def print_err_def preview_def)

lemma getenv_default_dry: "getenv_default e ''DRY_RUN'' ''0'' = ''1'' \<longleftrightarrow> e ''DRY_RUN'' = Some ''1''"
  by (simp add: getenv_default_def split: option.splits)

lemma main_build_failed:
  "build_tweet_text w start = (s1, Inl e) \<Longrightarrow>
   main w = (print_err ''[ERROR] Failed to build tweet: '' e s1, 1)"
  by (simp add: main_def)

lemma main_dry_run:
  "build_tweet_text w start = (s1, Inr t) \<Longrightarrow>
   getenv_default (environ w) ''DRY_RUN'' ''0'' = ''1'' \<Longrightarrow>
   main w = (print (''[INFO] DRY_RUN=1 '' @ arrow @ '' not posting to X.'') (preview t s1), 0)"
  by (simp add: main_def Let_def)

lemma main_calls:
  "calls (fst (main w)) =
    (case build_tweet_text w start of
       (s1, Inl e) \<Rightarrow> calls s1
     | (s1, Inr t) \<Rightarrow>
        if environ w ''DRY_RUN'' = Some ''1'' then calls s1
        else calls (fst (post_to_x w t (preview t s1))))"
  by (simp add: main_def Let_def print_simps getenv_default_dry split: prod.splits sum.splits)

lemma main_code:
  "snd (main w) =
    (case build_tweet_text w start of
       (s1, Inl e) \<Rightarrow> 1
     | (s1, Inr t) \<Rightarrow>
        if environ w ''DRY_RUN'' = Some ''1'' then 0
        else if isl (snd (post_to_x w t (preview t s1))) then 1 else 0)"
  by (simp add: main_def Let_def getenv_default_dry split: prod.splits sum.splits)

lemma main_calls_shape:
  "\<exists>d t a.
     calls (fst (main w)) = [GET BASE_URL latest_params]
   \<or> calls (fst (main w)) = [GET BASE_URL latest_params,
        GET BASE_URL (on_or_before_params (isoformat (d - 1)))]
   \<or> calls (fst (main w)) = [GET BASE_URL latest_params,
        GET BASE_URL (on_or_before_params (isoformat (d - 1))),
        GET BASE_URL (on_or_before_params (isoformat (d - 7)))]
   \<or> calls (fst (main w)) = [GET BASE_URL latest_params,
        GET BASE_URL (on_or_before_params (isoformat (d - 1))),
        GET BASE_URL (on_or_before_params (isoformat (d - 7))),
        POST tweets_url t a]"
proof (cases "build_tweet_text w start")
  case (Pair s1 r)
  show ?thesis
  proof (cases r)
    case (Inl e)
    then have "calls (fst (main w)) = calls s1" using Pair by (simp add: main_calls)
    moreover have "calls start = []" by (simp add: start_def)
    ultimately show ?thesis using build_calls [of w start] Pair by auto
  next
    case (Inr t)
    from build_success [of w start s1 t] Pair Inr obtain d where
      c: "calls s1 = [GET BASE_URL latest_params,
          GET BASE_URL (on_or_before_params (isoformat (d - 1))),
          GET BASE_URL (on_or_before_params (isoformat (d - 7)))]"
      by (auto simp: start_def)
    show ?thesis
    proof (cases "environ w ''DRY_RUN'' = Some ''1''")
      case True
      then have "calls (fst (main w)) = calls s1" using Pair Inr by (simp add: main_calls)
      then show ?thesis using c by auto
    next
      case False
      then have m: "calls (fst (main w)) = calls (fst (post_to_x w t (preview t s1)))"
        using Pair Inr by (simp add: main_calls)
      from post_calls [of w t "preview t s1"]
      have "calls (fst (post_to_x w t (preview t s1))) = calls s1
        \<or> (\<exists>a. calls (fst (post_to_x w t (preview t s1))) = calls s1 @ [POST tweets_url t a])"
        by (auto simp: print_simps)
      then show ?thesis unfolding m c by auto
    qed
  qed
qed

section \<open>The remote service\<close>

lemma sorted_le_last: "sorted xs \<Longrightarrow> x \<in> set xs \<Longrightarrow> x \<le> last xs"
  by (induction xs) auto

lemma last_sort_key_max:
  assumes "xs \<noteq> []"
  shows "last (sort_key f xs) \<in> set xs \<and> (\<forall>x\<in>set xs. f x \<le> f (last (sort_key f xs)))"
proof -
  let ?ys = "sort_key f xs"
  have ne: "?ys \<noteq> []" using assms by (metis length_sort length_0_conv)
  then have "last ?ys \<in> set ?ys" by (rule last_in_set)
  then have m: "last ?ys \<in> set xs" by simp
  have srt: "sorted (map f ?ys)" by (rule sorted_sort_key)
  have "\<forall>x\<in>set xs. f x \<le> f (last ?ys)"
  proof
    fix x assume "x \<in> set xs"
    then have "f x \<in> set (map f ?ys)" by simp
    with srt have "f x \<le> last (map f ?ys)" by (rule sorted_le_last)
    then show "f x \<le> f (last ?ys)" using ne by (simp add: last_map)
  qed
  then show ?thesis using m by blast
qed

lemma service_answer:
  assumes "fiscaldata w = fiscaldata_service ds"
    and "sort_p ps = ''-record_date''" and "page_size ps = 1"
  shows "answer w ps =
    (if filter (matches (filter_p ps)) ds = [] then Inl (NoData ps)
     else Inr (render_row (last (sort_key fst (filter (matches (filter_p ps)) ds)))))"
proof (cases "filter (matches (filter_p ps)) ds = []")
  case True
  then show ?thesis
    by (simp add: answer_def request_def assms fiscaldata_service_def raise_for_status_def)
next
  case False
  let ?ys = "sort_key fst (filter (matches (filter_p ps)) ds)"
  have "?ys \<noteq> []" using False by (metis length_sort length_0_conv)
  then have "rev ?ys \<noteq> []" and "hd (rev ?ys) = last ?ys" by (simp_all add: hd_rev)
  then obtain zs where r: "rev ?ys = last ?ys # zs" by (cases "rev ?ys") auto
  show ?thesis using False
    by (simp add: answer_def request_def assms fiscaldata_service_def raise_for_status_def
        Let_def r)
qed

lemma answer_fails: "isl (answer w ps) \<longleftrightarrow> call_fails (fiscaldata w ps)"
  by (auto simp: answer_def request_def call_fails_def Let_def
      split: http_result.splits option.splits list.splits)

section \<open>The example runs\<close>

lemmas service_eval = answer_def request_def fiscaldata_service_def matches_def
  latest_params_def on_or_before_params_def isoformat_def raise_for_status_def Let_def
  demo_dataset_def render_row_def

lemma dataset_latest:
  "fiscaldata w = fiscaldata_service demo_dataset \<Longrightarrow>
   answer w latest_params = Inr (render_row (739190, 36200000000000))"
  by (simp add: service_eval)

lemma dataset_yesterday:
  "fiscaldata w = fiscaldata_service demo_dataset \<Longrightarrow>
   answer w (on_or_before_params (IsoDate 739189)) = Inr (render_row (739189, 36197500000000))"
  by (simp add: service_eval)

lemma dataset_week:
  "fiscaldata w = fiscaldata_service demo_dataset \<Longrightarrow>
   answer w (on_or_before_params (IsoDate 739183))
     = Inr (render_row (739183, 35950000000000.25))"
  by (simp add: service_eval)

lemma parse_render: "parse_debt (render_row (d, a)) = Inr (a, IsoDate d)"
  by (simp add: parse_debt_def render_row_def float_of_def)

lemma dataset_build:
  assumes "fiscaldata w = fiscaldata_service demo_dataset" and "today w - 739190 \<le> 3"
  shows "build_tweet_text w s =
    (s\<lparr>calls := calls s @ [GET BASE_URL latest_params,
          GET BASE_URL (on_or_before_params (IsoDate 739189)),
          GET BASE_URL (on_or_before_params (IsoDate 739183))]\<rparr>,
     Inr demo_tweet)"
  using assms(2)
  by (simp add: build_unfold dataset_latest [OF assms(1)] dataset_yesterday [OF assms(1)]
      dataset_week [OF assms(1)] parse_render isoformat_def dateparser_parse_def
      MAX_STALE_DAYS_def demo_tweet_def Let_def)

lemma world_simps:
  "fiscaldata demo_world = fiscaldata_service demo_dataset" "today demo_world = 739191"
  "environ demo_world = [''DRY_RUN'' \<mapsto> ''1'']"
  "fiscaldata live_world = fiscaldata_service demo_dataset" "today live_world = 739191"
  "x_api live_world = (\<lambda>a t. Response 201 (Some ''created''))"
  "fiscaldata no_secret_world = fiscaldata_service demo_dataset" "today no_secret_world = 739191"
  "fiscaldata offline_world = (\<lambda>ps. NoResponse)"
  "environ offline_world = [''DRY_RUN'' \<mapsto> ''1'']"
  "fiscaldata three_days_world = fiscaldata_service demo_dataset"
  "today three_days_world = 739193"
  "fiscaldata stale_world = fiscaldata_service demo_dataset" "today stale_world = 739194"
  "today null_amount_world = 739191"
  by (simp_all add: demo_world_def live_world_def no_secret_world_def offline_world_def
      three_days_world_def stale_world_def null_amount_world_def)

lemma live_environ:
  "environ live_world ''DRY_RUN'' = Some ''true''"
  "environ live_world ''X_API_KEY'' = Some ''k''"
  "environ live_world ''X_API_SECRET'' = Some ''ks''"
  "environ live_world ''X_ACCESS_TOKEN'' = Some ''t''"
  "environ live_world ''X_ACCESS_TOKEN_SECRET'' = Some ''ts''"
  by (simp_all add: live_world_def demo_world_def)

lemma no_secret_environ:
  "environ no_secret_world ''DRY_RUN'' = None"
  "environ no_secret_world ''X_API_SECRET'' = None"
  by (simp_all add: no_secret_world_def demo_world_def)

lemma live_post:
  "post_to_x live_world t s =
     (s\<lparr>calls := calls s @ [POST tweets_url t demo_auth]\<rparr>, Inr ''created'')"
  by (simp add: post_to_x_def getenv_def truthy_def live_environ world_simps demo_auth_def
      raise_for_status_def Let_def)

lemma demo_deltas:
  "format_billions 2500000000 = ''+$2.50 B''"
  "format_billions 249999999999.75 = ''+$250.00 B''"
  by (simp_all add: format_billions_def billions_def fmt_eval)

lemma live_build:
  "build_tweet_text live_world s =
    (s\<lparr>calls := calls s @ [GET BASE_URL latest_params,
          GET BASE_URL (on_or_before_params (IsoDate 739189)),
          GET BASE_URL (on_or_before_params (IsoDate 739183))]\<rparr>,
     Inr demo_tweet)"
  by (rule dataset_build) (simp_all add: world_simps)

lemma no_secret_build:
  "build_tweet_text no_secret_world s =
    (s\<lparr>calls := calls s @ [GET BASE_URL latest_params,
          GET BASE_URL (on_or_before_params (IsoDate 739189)),
          GET BASE_URL (on_or_before_params (IsoDate 739183))]\<rparr>,
     Inr demo_tweet)"
  by (rule dataset_build) (simp_all add: world_simps)

lemma offline_build:
  "build_tweet_text offline_world s =
     (s\<lparr>calls := calls s @ [GET BASE_URL latest_params]\<rparr>, Inl ConnectionError)"
proof -
  have "answer offline_world latest_params = Inl ConnectionError"
    by (simp add: answer_def request_def world_simps)
  then show ?thesis by (simp add: build_unfold Let_def)
qed

section \<open>The tweet and its deltas\<close>

text \<open>
  Claim C1.  Whenever \<open>build_tweet_text\<close> returns a tweet, the three fetches of that run
  returned rows whose amounts are \<open>today_debt\<close>, \<open>y_debt\<close> and \<open>w_debt\<close>; the tweet is
  formatted from the daily delta \<open>today_debt - y_debt\<close> and the weekly delta
  \<open>today_debt - w_debt\<close>, and both formatted deltas occur in the returned text.
\<close>

theorem build_tweet_text_deltas:
  assumes "build_tweet_text w s = (s', Inr text)"
  shows "\<exists>s1 s2 r1 r2 r3 today_debt d y_debt y_str w_debt w_str.
      fetch_latest_debt_row w s = (s1, Inr r1)
    \<and> parse_debt r1 = Inr (today_debt, IsoDate d)
    \<and> fetch_debt_on_or_before w (isoformat (d - 1)) s1 = (s2, Inr r2)
    \<and> parse_debt r2 = Inr (y_debt, y_str)
    \<and> fetch_debt_on_or_before w (isoformat (d - 7)) s2 = (s', Inr r3)
    \<and> parse_debt r3 = Inr (w_debt, w_str)
    \<and> text = tweet today_debt y_debt w_debt (today_debt - y_debt) (today_debt - w_debt)
    \<and> sublist (''Daily Increase: '' @ format_billions (today_debt - y_debt)) text
    \<and> sublist (''Weekly Increase: '' @ format_billions (today_debt - w_debt)) text"
proof -
  from build_success [OF assms] obtain r1 a d r2 y ydt r3 k kdt where
    h: "answer w latest_params = Inr r1" "parse_debt r1 = Inr (a, IsoDate d)"
      "answer w (on_or_before_params (isoformat (d - 1))) = Inr r2"
      "parse_debt r2 = Inr (y, ydt)"
      "answer w (on_or_before_params (isoformat (d - 7))) = Inr r3"
      "parse_debt r3 = Inr (k, kdt)"
      "s' = s\<lparr>calls := calls s @ [GET BASE_URL latest_params,
          GET BASE_URL (on_or_before_params (isoformat (d - 1))),
          GET BASE_URL (on_or_before_params (isoformat (d - 7)))]\<rparr>"
      "text = tweet a y k (a - y) (a - k)"
    by blast
  define s1 where "s1 = s\<lparr>calls := calls s @ [GET BASE_URL latest_params]\<rparr>"
  define s2 where "s2 = s1\<lparr>calls := calls s1 @ [GET BASE_URL (on_or_before_params (isoformat (d - 1)))]\<rparr>"
  have f1: "fetch_latest_debt_row w s = (s1, Inr r1)"
    by (simp add: fetch_latest_run h(1) s1_def)
  have f2: "fetch_debt_on_or_before w (isoformat (d - 1)) s1 = (s2, Inr r2)"
    by (simp add: fetch_on_or_before_run h(3) s2_def)
  have f3: "fetch_debt_on_or_before w (isoformat (d - 7)) s2 = (s', Inr r3)"
    by (simp add: fetch_on_or_before_run h(5) h(7) s2_def s1_def)
  have d1: "sublist (''Daily Increase: '' @ format_billions (a - y)) text"
    unfolding h(8) tweet_def sublist_def
    by (rule exI [of _ "emoji_flag @ '' U.S. Debt Update'' @ nl @ nl
        @ emoji_money @ '' Today: $'' @ fmt_comma_2f a @ nl
        @ emoji_calendar @ '' Yesterday: $'' @ fmt_comma_2f y @ nl
        @ emoji_spiral @ '' 1 Week Ago: $'' @ fmt_comma_2f k @ nl @ nl
        @ emoji_chart @ '' ''"],
        rule exI [of _ "nl @ emoji_tearoff @ '' Weekly Increase: '' @ format_billions (a - k)
        @ nl @ nl @ ''#USDebt #DebtCrisis #FiscalReality''"]) simp
  have d2: "sublist (''Weekly Increase: '' @ format_billions (a - k)) text"
    unfolding h(8) tweet_def sublist_def
    by (rule exI [of _ "emoji_flag @ '' U.S. Debt Update'' @ nl @ nl
        @ emoji_money @ '' Today: $'' @ fmt_comma_2f a @ nl
        @ emoji_calendar @ '' Yesterday: $'' @ fmt_comma_2f y @ nl
        @ emoji_spiral @ '' 1 Week Ago: $'' @ fmt_comma_2f k @ nl @ nl
        @ emoji_chart @ '' Daily Increase: '' @ format_billions (a - y) @ nl
        @ emoji_tearoff @ '' ''"],
        rule exI [of _ "nl @ nl @ ''#USDebt #DebtCrisis #FiscalReality''"]) simp
  show ?thesis using f1 h(2) f2 h(4) f3 h(6) h(8) d1 d2 by blast
qed

theorem build_tweet_text_deltas_witness:
  "\<exists>s' text. build_tweet_text demo_world start = (s', Inr text)
     \<and> sublist ''Daily Increase: +$2.50 B'' text
     \<and> sublist ''Weekly Increase: +$250.00 B'' text"
proof -
  have w: "fiscaldata demo_world = fiscaldata_service demo_dataset"
    and t: "today demo_world - 739190 \<le> 3" by (simp_all add: world_simps)
  note b = dataset_build [OF w t, of start]
  from build_tweet_text_deltas [OF b] obtain s1 s2 r1 r2 r3 a d y ys k ks where
    h: "fetch_latest_debt_row demo_world start = (s1, Inr r1)"
      "parse_debt r1 = Inr (a, IsoDate d)"
      "fetch_debt_on_or_before demo_world (isoformat (d - 1)) s1 = (s2, Inr r2)"
      "parse_debt r2 = Inr (y, ys)"
      "\<exists>s3. fetch_debt_on_or_before demo_world (isoformat (d - 7)) s2 = (s3, Inr r3)"
      "parse_debt r3 = Inr (k, ks)"
      "sublist (''Daily Increase: '' @ format_billions (a - y)) demo_tweet"
      "sublist (''Weekly Increase: '' @ format_billions (a - k)) demo_tweet"
    by blast
  have "r1 = render_row (739190, 36200000000000)"
    using h(1) by (simp add: fetch_latest_answer dataset_latest [OF w])
  then have a: "a = 36200000000000" and d: "d = 739190" using h(2) by (simp_all add: parse_render)
  have "r2 = render_row (739189, 36197500000000)"
    using h(3) by (simp add: d fetch_on_or_before_answer isoformat_def dataset_yesterday [OF w])
  then have y: "y = 36197500000000" using h(4) by (simp add: parse_render)
  have "r3 = render_row (739183, 35950000000000.25)"
    using h(5) by (simp add: d fetch_on_or_before_answer isoformat_def dataset_week [OF w])
  then have k: "k = 35950000000000.25" using h(6) by (simp add: parse_render)
  have "a - y = 2500000000" by (simp add: a y)
  then have dy: "format_billions (a - y) = ''+$2.50 B''" by (simp only: demo_deltas)
  have "a - k = 249999999999.75" by (simp add: a k)
  then have dk: "format_billions (a - k) = ''+$250.00 B''" by (simp only: demo_deltas)
  have "sublist ''Daily Increase: +$2.50 B'' demo_tweet"
    using h(7) unfolding dy by simp
  moreover have "sublist ''Weekly Increase: +$250.00 B'' demo_tweet"
    using h(8) unfolding dk by simp
  ultimately show ?thesis using b by blast
qed

section \<open>The staleness guard\<close>

text \<open>
  Claim C2 says that, the three fetches succeeding, \<open>build_tweet_text\<close> fails if and only
  if the latest record is more than \<open>MAX_STALE_DAYS\<close> days old.  In the run below all
  three fetches return a row and the latest record is one day old, yet the build raises
  \<open>ValueError\<close>: the amount of the third row is not a number.
\<close>

theorem staleness_guard_counterexample:
  "(\<exists>s1 s2 s3 r1 r2 r3.
       fetch_latest_debt_row null_amount_world start = (s1, Inr r1)
     \<and> record_date r1 = Some (IsoDate 739190)
     \<and> fetch_debt_on_or_before null_amount_world (isoformat (739190 - 1)) s1 = (s2, Inr r2)
     \<and> fetch_debt_on_or_before null_amount_world (isoformat (739190 - 7)) s2 = (s3, Inr r3))
   \<and> today null_amount_world - 739190 = 1
   \<and> \<not> today null_amount_world - 739190 > MAX_STALE_DAYS
   \<and> snd (build_tweet_text null_amount_world start) = Inl ValueError"
proof -
  have a1: "answer null_amount_world latest_params = Inr (render_row (739190, 36200000000000))"
    by (simp add: null_amount_world_def demo_world_def service_eval)
  have a2: "answer null_amount_world (on_or_before_params (IsoDate 739189))
      = Inr (render_row (739189, 36197500000000))"
    by (simp add: null_amount_world_def demo_world_def service_eval)
  have a3: "answer null_amount_world (on_or_before_params (IsoDate 739183))
      = Inr \<lparr>record_date = Some (IsoDate 739183), tot_pub_debt_out_amt = Some BadAmount\<rparr>"
    by (simp add: null_amount_world_def demo_world_def service_eval)
  have f: "\<exists>s1 s2 s3 r1 r2 r3.
       fetch_latest_debt_row null_amount_world start = (s1, Inr r1)
     \<and> record_date r1 = Some (IsoDate 739190)
     \<and> fetch_debt_on_or_before null_amount_world (isoformat (739190 - 1)) s1 = (s2, Inr r2)
     \<and> fetch_debt_on_or_before null_amount_world (isoformat (739190 - 7)) s2 = (s3, Inr r3)"
    by (simp add: fetch_latest_run fetch_on_or_before_run isoformat_def a1 a2 a3 render_row_def)
  have pb: "parse_debt \<lparr>record_date = Some (IsoDate 739183),
      tot_pub_debt_out_amt = Some BadAmount\<rparr> = Inl ValueError"
    by (simp add: parse_debt_def float_of_def)
  have b: "snd (build_tweet_text null_amount_world start) = Inl ValueError"
    by (simp add: build_unfold Let_def a1 a2 a3 parse_render pb isoformat_def
        dateparser_parse_def MAX_STALE_DAYS_def world_simps)
  show ?thesis using f b by (simp add: world_simps MAX_STALE_DAYS_def)
qed

text \<open>
  Claim C2, amended.  When the three fetches succeed and each fetched row carries an
  amount that \<open>float\<close> accepts and a record date (the latest row's date being one the date
  parser accepts), \<open>build_tweet_text\<close> fails if and only if the latest record's date is
  more than \<open>MAX_STALE_DAYS = 3\<close> days before the current date; a record exactly three
  days old is accepted.
\<close>

theorem staleness_guard:
  assumes "fetch_latest_debt_row w s = (s1, Inr r1)"
    and "parse_debt r1 = Inr (a, IsoDate d)"
    and "fetch_debt_on_or_before w (isoformat (d - 1)) s1 = (s2, Inr r2)"
    and "parse_debt r2 = Inr (y, y_str)"
    and "fetch_debt_on_or_before w (isoformat (d - 7)) s2 = (s3, Inr r3)"
    and "parse_debt r3 = Inr (k, k_str)"
  shows "(isl (snd (build_tweet_text w s)) \<longleftrightarrow> today w - d > MAX_STALE_DAYS)
    \<and> MAX_STALE_DAYS = 3"
proof -
  have a1: "answer w latest_params = Inr r1" using assms(1) by (simp add: fetch_latest_answer)
  have a2: "answer w (on_or_before_params (isoformat (d - 1))) = Inr r2"
    using assms(3) by (simp add: fetch_on_or_before_answer)
  have a3: "answer w (on_or_before_params (isoformat (d - 7))) = Inr r3"
    using assms(5) by (simp add: fetch_on_or_before_answer)
  show ?thesis
    by (simp add: build_unfold Let_def a1 a2 a3 assms(2,4,6) dateparser_parse_def
        MAX_STALE_DAYS_def)
qed

theorem staleness_guard_witness:
  "today three_days_world - 739190 = 3
   \<and> \<not> isl (snd (build_tweet_text three_days_world start))
   \<and> today stale_world - 739190 = 4
   \<and> isl (snd (build_tweet_text stale_world start))"
proof -
  have w3: "fiscaldata three_days_world = fiscaldata_service demo_dataset"
    and w4: "fiscaldata stale_world = fiscaldata_service demo_dataset"
    by (simp_all add: world_simps)
  have p: "parse_debt (render_row (739190, 36200000000000)) = Inr (36200000000000, IsoDate 739190)"
    "parse_debt (render_row (739189, 36197500000000)) = Inr (36197500000000, IsoDate 739189)"
    "parse_debt (render_row (739183, 35950000000000.25)) = Inr (35950000000000.25, IsoDate 739183)"
    by (simp_all only: parse_render)
  have f3: "fetch_latest_debt_row three_days_world start =
      (start\<lparr>calls := calls start @ [GET BASE_URL latest_params]\<rparr>,
       Inr (render_row (739190, 36200000000000)))"
    "fetch_debt_on_or_before three_days_world (isoformat (739190 - 1)) s =
      (s\<lparr>calls := calls s @ [GET BASE_URL (on_or_before_params (isoformat (739190 - 1)))]\<rparr>,
       Inr (render_row (739189, 36197500000000)))"
    "fetch_debt_on_or_before three_days_world (isoformat (739190 - 7)) s =
      (s\<lparr>calls := calls s @ [GET BASE_URL (on_or_before_params (isoformat (739190 - 7)))]\<rparr>,
       Inr (render_row (739183, 35950000000000.25)))" for s
    by (simp_all add: fetch_latest_run fetch_on_or_before_run isoformat_def
        dataset_latest [OF w3] dataset_yesterday [OF w3] dataset_week [OF w3])
  have f4: "fetch_latest_debt_row stale_world start =
      (start\<lparr>calls := calls start @ [GET BASE_URL latest_params]\<rparr>,
       Inr (render_row (739190, 36200000000000)))"
    "fetch_debt_on_or_before stale_world (isoformat (739190 - 1)) s =
      (s\<lparr>calls := calls s @ [GET BASE_URL (on_or_before_params (isoformat (739190 - 1)))]\<rparr>,
       Inr (render_row (739189, 36197500000000)))"
    "fetch_debt_on_or_before stale_world (isoformat (739190 - 7)) s =
      (s\<lparr>calls := calls s @ [GET BASE_URL (on_or_before_params (isoformat (739190 - 7)))]\<rparr>,
       Inr (render_row (739183, 35950000000000.25)))" for s
    by (simp_all add: fetch_latest_run fetch_on_or_before_run isoformat_def
        dataset_latest [OF w4] dataset_yesterday [OF w4] dataset_week [OF w4])
  from staleness_guard [OF f3(1) p(1) f3(2) p(2) f3(3) p(3)]
  have "\<not> isl (snd (build_tweet_text three_days_world start))"
    by (simp add: world_simps)
  moreover from staleness_guard [OF f4(1) p(1) f4(2) p(2) f4(3) p(3)]
  have "isl (snd (build_tweet_text stale_world start))"
    by (simp add: world_simps)
  ultimately show ?thesis by (simp add: world_simps)
qed



section \<open>Fetching\<close>

text \<open>
  Claim C6.  Against a service that filters by \<open>lte\<close> and sorts by descending record
  date, \<open>fetch_debt_on_or_before\<close> returns the most recent record whose date is at most
  the target and \<open>fetch_latest_debt_row\<close> the most recent record overall; with no such
  record they raise.  Against any service, both raise exactly when the remote call errors
  or returns no rows.
\<close>

theorem fetch_returns_most_recent:
  assumes "fiscaldata w = fiscaldata_service ds"
  shows "((\<exists>x\<in>set ds. fst x \<le> t) \<longrightarrow>
        (\<exists>rec\<in>set ds. snd (fetch_debt_on_or_before w (isoformat t) s) = Inr (render_row rec)
           \<and> fst rec \<le> t \<and> (\<forall>x\<in>set ds. fst x \<le> t \<longrightarrow> fst x \<le> fst rec)))
    \<and> (\<not> (\<exists>x\<in>set ds. fst x \<le> t) \<longrightarrow>
        snd (fetch_debt_on_or_before w (isoformat t) s)
          = Inl (NoData (on_or_before_params (isoformat t))))
    \<and> (ds \<noteq> [] \<longrightarrow>
        (\<exists>rec\<in>set ds. snd (fetch_latest_debt_row w s) = Inr (render_row rec)
           \<and> (\<forall>x\<in>set ds. fst x \<le> fst rec)))
    \<and> (ds = [] \<longrightarrow> snd (fetch_latest_debt_row w s) = Inl (NoData latest_params))
    \<and> (\<forall>w' target. isl (snd (fetch_debt_on_or_before w' target s))
          \<longleftrightarrow> call_fails (fiscaldata w' (on_or_before_params target)))
    \<and> (\<forall>w'. isl (snd (fetch_latest_debt_row w' s))
          \<longleftrightarrow> call_fails (fiscaldata w' latest_params))"
proof -
  let ?hits = "filter (\<lambda>r. fst r \<le> t) ds"
  have m: "matches (filter_p (on_or_before_params (isoformat t))) = (\<lambda>r. fst r \<le> t)"
    by (simp add: fun_eq_iff matches_def on_or_before_params_def isoformat_def)
  have ob: "snd (fetch_debt_on_or_before w (isoformat t) s) =
      (if ?hits = [] then Inl (NoData (on_or_before_params (isoformat t)))
       else Inr (render_row (last (sort_key fst ?hits))))"
    unfolding fetch_on_or_before_run snd_conv
    by (subst service_answer [OF assms]) (simp_all add: m, simp_all add: on_or_before_params_def)
  have p1: "(\<exists>x\<in>set ds. fst x \<le> t) \<longrightarrow>
        (\<exists>rec\<in>set ds. snd (fetch_debt_on_or_before w (isoformat t) s) = Inr (render_row rec)
           \<and> fst rec \<le> t \<and> (\<forall>x\<in>set ds. fst x \<le> t \<longrightarrow> fst x \<le> fst rec))"
  proof
    assume "\<exists>x\<in>set ds. fst x \<le> t"
    then have ne: "?hits \<noteq> []" by (auto simp: filter_empty_conv)
    from last_sort_key_max [OF ne, of fst]
    have "last (sort_key fst ?hits) \<in> set ?hits"
      and "\<forall>x\<in>set ?hits. fst x \<le> fst (last (sort_key fst ?hits))" by blast+
    then show "\<exists>rec\<in>set ds. snd (fetch_debt_on_or_before w (isoformat t) s) = Inr (render_row rec)
           \<and> fst rec \<le> t \<and> (\<forall>x\<in>set ds. fst x \<le> t \<longrightarrow> fst x \<le> fst rec)"
      using ne ob by (intro bexI [of _ "last (sort_key fst ?hits)"]) auto
  qed
  have p2: "\<not> (\<exists>x\<in>set ds. fst x \<le> t) \<longrightarrow>
        snd (fetch_debt_on_or_before w (isoformat t) s)
          = Inl (NoData (on_or_before_params (isoformat t)))"
    using ob by (auto simp: filter_empty_conv)
  have ml: "matches (filter_p latest_params) = (\<lambda>r. True)"
    by (simp add: fun_eq_iff matches_def latest_params_def)
  have lt: "snd (fetch_latest_debt_row w s) =
      (if ds = [] then Inl (NoData latest_params)
       else Inr (render_row (last (sort_key fst ds))))"
    unfolding fetch_latest_run snd_conv
    by (subst service_answer [OF assms]) (simp_all add: ml, simp_all add: latest_params_def)
  have p3: "ds \<noteq> [] \<longrightarrow>
        (\<exists>rec\<in>set ds. snd (fetch_latest_debt_row w s) = Inr (render_row rec)
           \<and> (\<forall>x\<in>set ds. fst x \<le> fst rec))"
  proof
    assume ne: "ds \<noteq> []"
    from last_sort_key_max [OF ne, of fst] show "\<exists>rec\<in>set ds.
        snd (fetch_latest_debt_row w s) = Inr (render_row rec) \<and> (\<forall>x\<in>set ds. fst x \<le> fst rec)"
      using ne lt by (intro bexI [of _ "last (sort_key fst ds)"]) auto
  qed
  have p4: "ds = [] \<longrightarrow> snd (fetch_latest_debt_row w s) = Inl (NoData latest_params)"
    using lt by simp
  have p5: "\<forall>w' target. isl (snd (fetch_debt_on_or_before w' target s))
          \<longleftrightarrow> call_fails (fiscaldata w' (on_or_before_params target))"
    by (simp add: fetch_on_or_before_run answer_fails)
  have p6: "\<forall>w'. isl (snd (fetch_latest_debt_row w' s))
          \<longleftrightarrow> call_fails (fiscaldata w' latest_params)"
    by (simp add: fetch_latest_run answer_fails)
  show ?thesis using p1 p2 p3 p4 p5 p6 by blast
qed

theorem fetch_returns_most_recent_witness:
  "snd (fetch_debt_on_or_before demo_world (isoformat 739188) start)
     = Inr (render_row (739183, 35950000000000.25))
   \<and> snd (fetch_debt_on_or_before demo_world (isoformat 739100) start)
     = Inl (NoData (on_or_before_params (isoformat 739100)))
   \<and> snd (fetch_latest_debt_row demo_world start) = Inr (render_row (739190, 36200000000000))
   \<and> isl (snd (fetch_latest_debt_row offline_world start))
   \<and> isl (snd (fetch_debt_on_or_before offline_world (isoformat 739188) start))"
proof -
  have w: "fiscaldata demo_world = fiscaldata_service demo_dataset" by (simp add: world_simps)
  note th1 = fetch_returns_most_recent [OF w, of 739188 start]
  note th2 = fetch_returns_most_recent [OF w, of 739100 start]
  have 1: "snd (fetch_debt_on_or_before demo_world (isoformat 739188) start)
     = Inr (render_row (739183, 35950000000000.25))"
    using th1 by (auto simp: demo_dataset_def)
  have 2: "snd (fetch_debt_on_or_before demo_world (isoformat 739100) start)
     = Inl (NoData (on_or_before_params (isoformat 739100)))"
    using th2 by (simp add: demo_dataset_def)
  have 3: "snd (fetch_latest_debt_row demo_world start)
     = Inr (render_row (739190, 36200000000000))"
    using th1 by (auto simp: demo_dataset_def)
  have 4: "isl (snd (fetch_latest_debt_row offline_world start))
     \<and> isl (snd (fetch_debt_on_or_before offline_world (isoformat 739188) start))"
    using th1 by (simp add: call_fails_def world_simps)
  show ?thesis using 1 2 3 4 by blast
qed

section \<open>Publishing and the dry run\<close>

text \<open>
  Claim C4.  In every environment in which at least one of \<open>X_API_KEY\<close>,
  \<open>X_API_SECRET\<close>, \<open>X_ACCESS_TOKEN\<close>, \<open>X_ACCESS_TOKEN_SECRET\<close> is missing, \<open>post_to_x\<close>
  raises before any POST is issued: the calls made so far are unchanged.
\<close>

theorem post_to_x_missing_credentials:
  assumes "environ w ''X_API_KEY'' = None \<or> environ w ''X_API_SECRET'' = None
    \<or> environ w ''X_ACCESS_TOKEN'' = None \<or> environ w ''X_ACCESS_TOKEN_SECRET'' = None"
  shows "post_to_x w text s = (s, Inl MissingCredentials)
    \<and> calls (fst (post_to_x w text s)) = calls s"
  using assms by (auto simp: post_to_x_def getenv_def truthy_def Let_def)

theorem post_to_x_missing_credentials_witness:
  "environ no_secret_world ''X_API_SECRET'' = None
   \<and> post_to_x no_secret_world ''hello'' start = (start, Inl MissingCredentials)
   \<and> calls (fst (post_to_x no_secret_world ''hello'' start)) = []"
  using post_to_x_missing_credentials [of no_secret_world "''hello''" start]
  by (simp add: no_secret_environ start_def)

text \<open>
  Claim C3 says that every run with dry-run mode enabled prints the preview and terminates
  successfully.  In the run below \<open>DRY_RUN=1\<close> and the fiscal-data service cannot be
  reached: the run prints no preview and exits with status 1.
\<close>

theorem dry_run_counterexample:
  "environ offline_world ''DRY_RUN'' = Some ''1''
   \<and> main offline_world =
       (\<lparr>calls = [GET BASE_URL latest_params],
         outputs = [PrintErr ''[ERROR] Failed to build tweet: '' ConnectionError]\<rparr>, 1)"
proof -
  have "answer offline_world latest_params = Inl ConnectionError"
    by (simp add: answer_def request_def world_simps)
  then have "build_tweet_text offline_world start =
      (start\<lparr>calls := calls start @ [GET BASE_URL latest_params]\<rparr>, Inl ConnectionError)"
    by (simp add: build_unfold Let_def)
  then show ?thesis
    by (simp add: main_def print_err_def start_def world_simps)
qed

text \<open>
  Claim C3, amended.  In every run with \<open>DRY_RUN=1\<close>, \<open>main\<close> issues no POST: it never
  reaches \<open>post_to_x\<close>.  Whenever \<open>build_tweet_text\<close> returns a tweet, the run prints the
  preview and the dry-run notice and exits with status 0; when \<open>build_tweet_text\<close> raises,
  the run logs the error and exits with status 1.
\<close>

theorem dry_run_never_posts:
  assumes "environ w ''DRY_RUN'' = Some ''1''"
  shows "(\<forall>u t a. POST u t a \<notin> set (calls (fst (main w))))
    \<and> (\<forall>s1 t. build_tweet_text w start = (s1, Inr t) \<longrightarrow>
          main w = (print (''[INFO] DRY_RUN=1 '' @ arrow @ '' not posting to X.'')
                      (preview t s1), 0))
    \<and> (\<forall>s1 e. build_tweet_text w start = (s1, Inl e) \<longrightarrow>
          main w = (print_err ''[ERROR] Failed to build tweet: '' e s1, 1))"
proof -
  have "calls (fst (main w)) = calls (fst (build_tweet_text w start))"
    using assms by (simp add: main_calls split: prod.splits sum.splits)
  then have "\<forall>u t a. POST u t a \<notin> set (calls (fst (main w)))"
    using build_no_post [of _ _ _ w] by auto
  moreover have "\<forall>s1 t. build_tweet_text w start = (s1, Inr t) \<longrightarrow>
          main w = (print (''[INFO] DRY_RUN=1 '' @ arrow @ '' not posting to X.'')
                      (preview t s1), 0)"
    using assms by (simp add: main_dry_run getenv_default_dry)
  moreover have "\<forall>s1 e. build_tweet_text w start = (s1, Inl e) \<longrightarrow>
          main w = (print_err ''[ERROR] Failed to build tweet: '' e s1, 1)"
    by (simp add: main_build_failed)
  ultimately show ?thesis by blast
qed

theorem dry_run_never_posts_witness:
  "environ demo_world ''DRY_RUN'' = Some ''1''
   \<and> (\<forall>u t a. POST u t a \<notin> set (calls (fst (main demo_world))))
   \<and> main demo_world =
       (\<lparr>calls = [GET BASE_URL latest_params,
          GET BASE_URL (on_or_before_params (IsoDate 739189)),
          GET BASE_URL (on_or_before_params (IsoDate 739183))],
         outputs = [Print ''=== Generated Tweet Preview ==='', Print demo_tweet,
          Print ''================================'',
          Print (''[INFO] DRY_RUN=1 '' @ arrow @ '' not posting to X.'')]\<rparr>, 0)"
proof -
  have e: "environ demo_world ''DRY_RUN'' = Some ''1''" by (simp add: world_simps)
  have w: "fiscaldata demo_world = fiscaldata_service demo_dataset"
    and t: "today demo_world - 739190 \<le> 3" by (simp_all add: world_simps)
  note b = dataset_build [OF w t, of start]
  from dry_run_never_posts [OF e] b show ?thesis
    by (simp add: e print_def preview_def start_def)
qed

text \<open>
  Claim C10.  Unless \<open>DRY_RUN\<close> is exactly the string \<open>1\<close> (so also when it is \<open>true\<close>,
  \<open>yes\<close> or unset), a run that built its tweet goes on to \<open>post_to_x\<close>, and its outcome
  is the outcome of the post.
\<close>

theorem dry_run_only_on_exact_1:
  assumes "build_tweet_text w start = (s1, Inr t)"
    and "environ w ''DRY_RUN'' \<noteq> Some ''1''"
  shows "main w =
      (case post_to_x w t (preview t s1) of
         (s3, Inl e) \<Rightarrow> (print_err ''[ERROR] Failed to post tweet: '' e s3, 1)
       | (s3, Inr resp) \<Rightarrow>
           (print_resp resp (print ''[INFO] Tweet posted successfully.'' s3), 0))"
  using assms by (simp add: main_def Let_def getenv_default_dry)

theorem dry_run_only_on_exact_1_witness:
  "environ live_world ''DRY_RUN'' = Some ''true''
   \<and> main live_world =
      (\<lparr>calls = [GET BASE_URL latest_params,
          GET BASE_URL (on_or_before_params (IsoDate 739189)),
          GET BASE_URL (on_or_before_params (IsoDate 739183)),
          POST tweets_url demo_tweet demo_auth],
        outputs = [Print ''=== Generated Tweet Preview ==='', Print demo_tweet,
          Print ''================================'',
          Print ''[INFO] Tweet posted successfully.'', PrintResp ''created'']\<rparr>, 0)
   \<and> environ no_secret_world ''DRY_RUN'' = None
   \<and> snd (main no_secret_world) = 1"
proof -
  have e: "environ live_world ''DRY_RUN'' \<noteq> Some ''1''" by (simp add: live_environ)
  have e2: "environ no_secret_world ''DRY_RUN'' \<noteq> Some ''1''" by (simp add: no_secret_environ)
  have p: "post_to_x no_secret_world demo_tweet s = (s, Inl MissingCredentials)" for s
    by (simp add: post_to_x_def getenv_def truthy_def no_secret_environ)
  from dry_run_only_on_exact_1 [OF live_build e]
  have 1: "main live_world =
      (\<lparr>calls = [GET BASE_URL latest_params,
          GET BASE_URL (on_or_before_params (IsoDate 739189)),
          GET BASE_URL (on_or_before_params (IsoDate 739183)),
          POST tweets_url demo_tweet demo_auth],
        outputs = [Print ''=== Generated Tweet Preview ==='', Print demo_tweet,
          Print ''================================'',
          Print ''[INFO] Tweet posted successfully.'', PrintResp ''created'']\<rparr>, 0)"
    by (simp add: live_post print_def print_resp_def preview_def start_def)
  from dry_run_only_on_exact_1 [OF no_secret_build e2]
  have 2: "snd (main no_secret_world) = 1" by (simp add: p)
  show ?thesis using 1 2 by (simp add: live_environ no_secret_environ)
qed

section \<open>The run as a whole\<close>

text \<open>
  Claim C5.  \<open>main\<close> exits with status 0 or 1.  It exits with 0 exactly when the tweet was
  built and either the run is a dry run or posting succeeded, and with 1 exactly when
  \<open>build_tweet_text\<close> or \<open>post_to_x\<close> raised.  A failure is logged on the error stream
  before the exit, and no network call is issued twice.
\<close>

theorem main_exit_code:
  "(snd (main w) = 0 \<or> snd (main w) = 1)
   \<and> (snd (main w) = 0 \<longleftrightarrow>
        (\<exists>s1 t. build_tweet_text w start = (s1, Inr t)
           \<and> (environ w ''DRY_RUN'' = Some ''1''
              \<or> \<not> isl (snd (post_to_x w t (preview t s1))))))
   \<and> (snd (main w) = 1 \<longleftrightarrow>
        (isl (snd (build_tweet_text w start))
         \<or> (\<exists>s1 t. build_tweet_text w start = (s1, Inr t)
              \<and> environ w ''DRY_RUN'' \<noteq> Some ''1''
              \<and> isl (snd (post_to_x w t (preview t s1))))))
   \<and> (\<forall>s1 e. build_tweet_text w start = (s1, Inl e) \<longrightarrow>
        outputs (fst (main w)) = [PrintErr ''[ERROR] Failed to build tweet: '' e])
   \<and> (\<forall>s1 t s3 e. build_tweet_text w start = (s1, Inr t)
          \<and> environ w ''DRY_RUN'' \<noteq> Some ''1''
          \<and> post_to_x w t (preview t s1) = (s3, Inl e) \<longrightarrow>
        last (outputs (fst (main w))) = PrintErr ''[ERROR] Failed to post tweet: '' e)
   \<and> distinct (calls (fst (main w)))"
proof -
  have c: "snd (main w) = 0 \<or> snd (main w) = 1"
    by (simp add: main_code split: prod.splits sum.splits)
  have z: "snd (main w) = 0 \<longleftrightarrow>
        (\<exists>s1 t. build_tweet_text w start = (s1, Inr t)
           \<and> (environ w ''DRY_RUN'' = Some ''1''
              \<or> \<not> isl (snd (post_to_x w t (preview t s1)))))"
    by (cases "build_tweet_text w start") (auto simp: main_code split: sum.splits)
  have o: "snd (main w) = 1 \<longleftrightarrow>
        (isl (snd (build_tweet_text w start))
         \<or> (\<exists>s1 t. build_tweet_text w start = (s1, Inr t)
              \<and> environ w ''DRY_RUN'' \<noteq> Some ''1''
              \<and> isl (snd (post_to_x w t (preview t s1)))))"
    by (cases "build_tweet_text w start") (auto simp: main_code split: sum.splits)
  have l1: "\<forall>s1 e. build_tweet_text w start = (s1, Inl e) \<longrightarrow>
        outputs (fst (main w)) = [PrintErr ''[ERROR] Failed to build tweet: '' e]"
  proof (intro allI impI)
    fix s1 e assume b: "build_tweet_text w start = (s1, Inl e)"
    have "outputs s1 = []" using build_calls [of w start] b by (simp add: start_def)
    then show "outputs (fst (main w)) = [PrintErr ''[ERROR] Failed to build tweet: '' e]"
      by (simp add: main_build_failed [OF b] print_simps)
  qed
  have l2: "\<forall>s1 t s3 e. build_tweet_text w start = (s1, Inr t)
          \<and> environ w ''DRY_RUN'' \<noteq> Some ''1''
          \<and> post_to_x w t (preview t s1) = (s3, Inl e) \<longrightarrow>
        last (outputs (fst (main w))) = PrintErr ''[ERROR] Failed to post tweet: '' e"
    by (simp add: main_def Let_def getenv_default_dry print_simps)
  have d: "distinct (calls (fst (main w)))"
    using main_calls_shape [of w]
    by (auto simp: latest_params_def on_or_before_params_def isoformat_def)
  show ?thesis using c z o l1 l2 d by blast
qed

theorem main_exit_code_witness:
  "snd (main offline_world) = 1
   \<and> outputs (fst (main offline_world))
       = [PrintErr ''[ERROR] Failed to build tweet: '' ConnectionError]
   \<and> snd (main no_secret_world) = 1
   \<and> last (outputs (fst (main no_secret_world)))
       = PrintErr ''[ERROR] Failed to post tweet: '' MissingCredentials
   \<and> snd (main live_world) = 0
   \<and> snd (main demo_world) = 0
   \<and> distinct (calls (fst (main live_world)))"
proof -
  have p: "post_to_x no_secret_world demo_tweet s = (s, Inl MissingCredentials)" for s
    by (simp add: post_to_x_def getenv_def truthy_def no_secret_environ)
  have w: "fiscaldata demo_world = fiscaldata_service demo_dataset"
    and t: "today demo_world - 739190 \<le> 3" by (simp_all add: world_simps)
  note b = dataset_build [OF w t, of start]
  have 1: "snd (main offline_world) = 1
     \<and> outputs (fst (main offline_world))
       = [PrintErr ''[ERROR] Failed to build tweet: '' ConnectionError]"
    using main_exit_code [of offline_world] by (simp add: offline_build)
  have 2: "snd (main no_secret_world) = 1
     \<and> last (outputs (fst (main no_secret_world)))
       = PrintErr ''[ERROR] Failed to post tweet: '' MissingCredentials"
    using main_exit_code [of no_secret_world] by (simp add: no_secret_build p no_secret_environ)
  have 3: "snd (main live_world) = 0 \<and> distinct (calls (fst (main live_world)))"
    using main_exit_code [of live_world] by (simp add: live_build live_post live_environ)
  have 4: "snd (main demo_world) = 0"
    using main_exit_code [of demo_world] by (simp add: b world_simps)
  show ?thesis using 1 2 3 4 by blast
qed

text \<open>
  Claim C8.  The network calls of a run are, in this order, the GET for the latest record,
  the GET for the record on or before the day before it, the GET for the record on or
  before seven days before it, and one POST to the posting endpoint; a run stops after any
  of them, so it makes at most four calls and no others.
\<close>

theorem main_network_calls:
  "\<exists>d t a.
     calls (fst (main w)) = [GET BASE_URL latest_params]
   \<or> calls (fst (main w)) = [GET BASE_URL latest_params,
        GET BASE_URL (on_or_before_params (isoformat (d - 1)))]
   \<or> calls (fst (main w)) = [GET BASE_URL latest_params,
        GET BASE_URL (on_or_before_params (isoformat (d - 1))),
        GET BASE_URL (on_or_before_params (isoformat (d - 7)))]
   \<or> calls (fst (main w)) = [GET BASE_URL latest_params,
        GET BASE_URL (on_or_before_params (isoformat (d - 1))),
        GET BASE_URL (on_or_before_params (isoformat (d - 7))),
        POST tweets_url t a]"
  by (rule main_calls_shape)

theorem main_network_calls_witness:
  "calls (fst (main live_world)) = [GET BASE_URL latest_params,
        GET BASE_URL (on_or_before_params (isoformat (739190 - 1))),
        GET BASE_URL (on_or_before_params (isoformat (739190 - 7))),
        POST tweets_url demo_tweet demo_auth]
   \<and> calls (fst (main offline_world)) = [GET BASE_URL latest_params]"
  using main_network_calls [of live_world] main_network_calls [of offline_world]
  by (simp add: main_calls live_build offline_build live_environ world_simps live_post
      print_simps start_def isoformat_def)

end
